theory Spec2Isabelle
  imports Main "HOL-Library.Word" "HOL-Library.Sublist" "HOL-Library.Option_ord"
    "HOL-Library.Multiset"
begin

section \<open>Scan and Archive API: the handlers of main.py\<close>

text \<open>
  The handlers of \<^verbatim>\<open>main.py\<close> are modelled as functions from the database handle and
  the request to the response (or the error the handler raises) and the database
  afterwards. A collection is the list of its entries in insertion order. An entry is a
  record whose fields are the keys the handlers write and read.
\<close>

subsection \<open>Python values\<close>

text \<open>
  A Python \<^verbatim>\<open>str\<close> is a sequence of code points, a \<^verbatim>\<open>bytes\<close> object a
  sequence of octets. \<open>lit\<close> reads a string literal of the source.
\<close>

type_synonym pystr = "nat list"
type_synonym pybytes = "8 word list"

definition lit :: "string \<Rightarrow> pystr" where
  "lit s = map of_char s"

text \<open>Python's \<^verbatim>\<open>x or default\<close> on an optional string: None and the empty string are falsy.\<close>

definition str_or :: "pystr option \<Rightarrow> pystr \<Rightarrow> pystr" where
  "str_or x dflt = (case x of None \<Rightarrow> dflt | Some s \<Rightarrow> if s = [] then dflt else s)"

text \<open>\<^verbatim>\<open>payload.tags or []\<close>: None and the empty list both give the empty list.\<close>

definition list_or_empty :: "'a list option \<Rightarrow> 'a list" where
  "list_or_empty x = (case x of None \<Rightarrow> [] | Some xs \<Rightarrow> xs)"

text \<open>The formatting of an optional string inside an f-string: None prints as \<^verbatim>\<open>None\<close>.\<close>

definition format_opt :: "pystr option \<Rightarrow> pystr" where
  "format_opt x = (case x of None \<Rightarrow> lit ''None'' | Some s \<Rightarrow> s)"

subsection \<open>Object identifiers\<close>

text \<open>
  \<^verbatim>\<open>bson.objectid.ObjectId\<close>: an identifier is twelve octets, written as 24
  hexadecimal digits of either case and printed in lower case. The constructor takes a
  string of 24 characters that \<^verbatim>\<open>bytes.fromhex\<close> accepts and raises InvalidId on any
  other string, which \<open>ObjectId\<close> answers with None. \<^verbatim>\<open>bytes.fromhex\<close> reads pairs
  of hexadecimal digits and skips ASCII whitespace before a pair and at the end, so a
  string of 24 characters with whitespace between the pairs is taken too, and gives an
  identifier of fewer than twelve octets.
\<close>

datatype oid = Oid pybytes

definition hex_val :: "nat \<Rightarrow> nat option" where
  "hex_val c =
     (if 48 \<le> c \<and> c \<le> 57 then Some (c - 48)
      else if 97 \<le> c \<and> c \<le> 102 then Some (c - 87)
      else if 65 \<le> c \<and> c \<le> 70 then Some (c - 55)
      else None)"

definition is_space :: "nat \<Rightarrow> bool" where
  "is_space c = (c = 32 \<or> (9 \<le> c \<and> c \<le> 13))"

fun fromhex :: "pystr \<Rightarrow> pybytes option" where
  "fromhex [] = Some []"
| "fromhex [c] = (if is_space c then Some [] else None)"
| "fromhex (c # d # cs) =
     (if is_space c then fromhex (d # cs)
      else (case hex_val c of None \<Rightarrow> None
            | Some h \<Rightarrow>
               (case hex_val d of None \<Rightarrow> None
                | Some l \<Rightarrow>
                   (case fromhex cs of None \<Rightarrow> None
                    | Some bs \<Rightarrow> Some (of_nat (16 * h + l) # bs)))))"

definition ObjectId :: "pystr \<Rightarrow> oid option" where
  "ObjectId s = (if length s = 24 then map_option Oid (fromhex s) else None)"

definition hex_digit :: "nat \<Rightarrow> nat" where
  "hex_digit n = (if n < 10 then 48 + n else 87 + n)"

fun str_oid :: "oid \<Rightarrow> pystr" where
  "str_oid (Oid bs) = concat (map (\<lambda>b. [hex_digit (unat b div 16), hex_digit (unat b mod 16)]) bs)"

subsection \<open>Schemas and stored entries\<close>

record DocumentCreate =
  title :: pystr
  tags :: "pystr list option"
  notes' :: "pystr option"

record DocumentOut =
  out_id :: pystr
  out_title :: pystr
  out_tags :: "pystr list"
  out_notes :: "pystr option"
  out_mime_type :: "pystr option"
  out_size :: "int option"
  out_text_preview :: "pystr option"

text \<open>An entry of the collection \<^verbatim>\<open>document\<close>; \<open>doc_oid\<close> is its key \<^verbatim>\<open>_id\<close>.\<close>

record document =
  doc_oid :: oid
  doc_title :: pystr
  doc_tags :: "pystr list"
  doc_notes :: "pystr option"
  doc_mime_type :: "pystr option"
  doc_size :: "int option"
  doc_text_preview :: "pystr option"
  doc_file_blob_id :: "oid option"
  doc_created_at :: "nat option"

text \<open>An entry of the collection \<^verbatim>\<open>fileblob\<close>; \<open>blob_oid\<close> is its key \<^verbatim>\<open>_id\<close>.\<close>

record fileblob =
  blob_oid :: oid
  blob_doc_id :: oid
  blob_filename :: "pystr option"
  blob_content_type :: "pystr option"
  blob_size :: int
  blob_content :: pybytes

text \<open>The uploaded file: its name, its content type and what \<^verbatim>\<open>file.read()\<close> returns.\<close>

record UploadFile =
  filename :: "pystr option"
  content_type :: "pystr option"
  file_content :: pybytes

text \<open>
  The streaming response of the download route: the body it streams, its media type and
  the two headers it is built with.
\<close>

record StreamingResponse =
  body :: pybytes
  media_type :: pystr
  content_disposition :: pystr
  content_type_header :: pystr

record database =
  DOC_COLLECTION :: "document list"
  FILE_COLLECTION :: "fileblob list"

subsection \<open>Errors\<close>

text \<open>
  A handler raises an \<^verbatim>\<open>HTTPException\<close> with a status code and a detail; any other
  exception (a duplicate key, an invalid identifier, a subscript of None, a header value
  that cannot be encoded, a query the database rejects) is answered by the framework
  with status 500.
\<close>

datatype error =
  HTTPException nat string | DuplicateKeyError | InvalidId | TypeError | UnicodeEncodeError
  | OperationFailure

fun status_code :: "error \<Rightarrow> nat" where
  "status_code (HTTPException n d) = n"
| "status_code DuplicateKeyError = 500"
| "status_code InvalidId = 500"
| "status_code TypeError = 500"
| "status_code UnicodeEncodeError = 500"
| "status_code OperationFailure = 500"

subsection \<open>The database driver\<close>

definition find_one :: "('a \<Rightarrow> bool) \<Rightarrow> 'a list \<Rightarrow> 'a option" where
  "find_one p xs = find p xs"

fun update_one :: "('a \<Rightarrow> bool) \<Rightarrow> ('a \<Rightarrow> 'a) \<Rightarrow> 'a list \<Rightarrow> 'a list" where
  "update_one p f [] = []"
| "update_one p f (x # xs) = (if p x then f x # xs else x # update_one p f xs)"

fun delete_one :: "('a \<Rightarrow> bool) \<Rightarrow> 'a list \<Rightarrow> 'a list" where
  "delete_one p [] = []"
| "delete_one p (x # xs) = (if p x then xs else x # delete_one p xs)"

text \<open>
  Modelled from the spec: the helper \<^verbatim>\<open>create_document\<close> of the module
  \<^verbatim>\<open>database\<close> is not among the sources. It inserts a mapping of fields into a named
  collection and returns its generated identifier, in the written form that the
  handlers hand to \<^verbatim>\<open>ObjectId\<close>. The identifier the database generates is part of
  the entry handed over here, and so is the creation time of a document (the key
  \<^verbatim>\<open>created_at\<close>, which the spec assumes to exist, None when the helper records
  none). Identifiers are unique in a collection, so an insertion under an identifier
  already present fails.
\<close>

definition create_document :: "('a \<Rightarrow> oid) \<Rightarrow> 'a list \<Rightarrow> 'a \<Rightarrow> error + (pystr \<times> 'a list)" where
  "create_document key coll entry =
     (if key entry \<in> set (map key coll) then Inl DuplicateKeyError
      else Inr (str_oid (key entry), coll @ [entry]))"

definition document_out :: "document \<Rightarrow> DocumentOut" where
  "document_out d =
     \<lparr> out_id = str_oid (doc_oid d),
       out_title = doc_title d,
       out_tags = doc_tags d,
       out_notes = doc_notes d,
       out_mime_type = doc_mime_type d,
       out_size = doc_size d,
       out_text_preview = doc_text_preview d \<rparr>"

subsection \<open>Text preview\<close>

text \<open>
  \<^verbatim>\<open>bytes.decode(errors="ignore")\<close>: UTF-8 decoding in which every octet that is not
  part of a well-formed sequence is dropped. \<open>utf8_seq b0 bs\<close> reads the sequence that
  the lead octet \<open>b0\<close> starts: its code point and the number of continuation octets.
\<close>

definition is_cont :: "nat \<Rightarrow> bool" where
  "is_cont b = (128 \<le> b \<and> b < 192)"

definition utf8_seq :: "nat \<Rightarrow> nat list \<Rightarrow> (nat \<times> nat) option" where
  "utf8_seq b0 bs =
     (if 194 \<le> b0 \<and> b0 < 224 then
        (case bs of
           b1 # r \<Rightarrow> if is_cont b1 then Some ((b0 - 192) * 64 + (b1 - 128), 1) else None
         | _ \<Rightarrow> None)
      else if 224 \<le> b0 \<and> b0 < 240 then
        (case bs of
           b1 # b2 # r \<Rightarrow>
             if is_cont b1 \<and> is_cont b2 \<and> (b0 = 224 \<longrightarrow> 160 \<le> b1) \<and> (b0 = 237 \<longrightarrow> b1 < 160)
             then Some ((b0 - 224) * 4096 + (b1 - 128) * 64 + (b2 - 128), 2) else None
         | _ \<Rightarrow> None)
      else if 240 \<le> b0 \<and> b0 < 245 then
        (case bs of
           b1 # b2 # b3 # r \<Rightarrow>
             if is_cont b1 \<and> is_cont b2 \<and> is_cont b3 \<and> (b0 = 240 \<longrightarrow> 144 \<le> b1) \<and> (b0 = 244 \<longrightarrow> b1 < 144)
             then Some ((b0 - 240) * 262144 + (b1 - 128) * 4096 + (b2 - 128) * 64 + (b3 - 128), 3)
             else None
         | _ \<Rightarrow> None)
      else None)"

function decode_ignore_nat :: "nat list \<Rightarrow> pystr" where
  "decode_ignore_nat [] = []"
| "decode_ignore_nat (b0 # bs) =
     (if b0 < 128 then b0 # decode_ignore_nat bs
      else (case utf8_seq b0 bs of
              None \<Rightarrow> decode_ignore_nat bs
            | Some (cp, n) \<Rightarrow> cp # decode_ignore_nat (drop n bs)))"
  by pat_completeness auto
termination
  by (relation "measure length") auto

definition decode_ignore :: "pybytes \<Rightarrow> pystr" where
  "decode_ignore content = decode_ignore_nat (map unat content)"

text \<open>
  The test of the upload route:
  \<^verbatim>\<open>file.content_type and ("text" in file.content_type or file.content_type == "application/pdf")\<close>.
  The decoding with \<^verbatim>\<open>errors="ignore"\<close> raises nothing, so the route's
  \<^verbatim>\<open>except\<close> branch is never taken and the preview written is a string.
\<close>

definition text_like :: "pystr option \<Rightarrow> bool" where
  "text_like ct =
     (case ct of None \<Rightarrow> False
      | Some s \<Rightarrow> s \<noteq> [] \<and> (sublist (lit ''text'') s \<or> s = lit ''application/pdf''))"

subsection \<open>Regular expressions of the search\<close>

text \<open>
  The filter \<^verbatim>\<open>{"$regex": q, "$options": "i"}\<close> has the database search the stored
  text for a match of the regular expression \<open>q\<close>, letters compared without case. The
  regular-expression engine belongs to the database. What is fixed here is its reading of
  a pattern made of ordinary characters and dots (an ordinary character matches itself up
  to case, a dot matches any character but a newline) and of a pattern that opens a group
  and can never close it, which the database rejects. The rest of the engine is taken as
  given: \<open>case_fold\<close> is its case folding (two characters match without case when they
  fold to the same character), and \<open>compile_other\<close> is what it makes of any other
  pattern: the predicate that tells whether a text has a match, or None when it rejects
  the pattern.
\<close>

record regex_engine =
  case_fold :: "nat \<Rightarrow> nat"
  compile_other :: "pystr \<Rightarrow> (pystr \<Rightarrow> bool) option"

datatype atom = AnyChar | Literal nat

datatype pattern = Atoms "atom list" | Unclosed | Other

definition metachars :: "nat list" where
  "metachars = lit [CHR 0x5C, CHR ''^'', CHR ''$'', CHR ''|'', CHR ''?'', CHR ''*'', CHR ''+'',
     CHR ''('', CHR '')'', CHR ''['', CHR '']'', CHR ''{'', CHR ''}'']"

text \<open>An ordinary character or a dot: no other metacharacter, and not the character 0.\<close>

definition plain_char :: "nat \<Rightarrow> bool" where
  "plain_char c = (c \<noteq> 0 \<and> c \<notin> set metachars)"

definition atom_of :: "nat \<Rightarrow> atom" where
  "atom_of c = (if c = 46 then AnyChar else Literal c)"

text \<open>
  A pattern with an opening parenthesis and without a closing one, a backslash, an
  opening bracket or the character 0 opens a group that is never closed.
\<close>

definition classify :: "pystr \<Rightarrow> pattern" where
  "classify q =
     (if list_all plain_char q then Atoms (map atom_of q)
      else if 40 \<in> set q \<and> 41 \<notin> set q \<and> 92 \<notin> set q \<and> 91 \<notin> set q \<and> 0 \<notin> set q then Unclosed
      else Other)"

fun atom_matches :: "(nat \<Rightarrow> nat) \<Rightarrow> atom \<Rightarrow> nat \<Rightarrow> bool" where
  "atom_matches f AnyChar c = (c \<noteq> 10)"
| "atom_matches f (Literal a) c = (f a = f c)"

fun match_here :: "(nat \<Rightarrow> nat) \<Rightarrow> atom list \<Rightarrow> pystr \<Rightarrow> bool" where
  "match_here f [] s = True"
| "match_here f (a # as) [] = False"
| "match_here f (a # as) (c # s) = (atom_matches f a c \<and> match_here f as s)"

fun regex_search :: "(nat \<Rightarrow> nat) \<Rightarrow> atom list \<Rightarrow> pystr \<Rightarrow> bool" where
  "regex_search f as [] = match_here f as []"
| "regex_search f as (c # s) = (match_here f as (c # s) \<or> regex_search f as s)"

definition regex_compile :: "'a regex_engine_scheme \<Rightarrow> pystr \<Rightarrow> (pystr \<Rightarrow> bool) option" where
  "regex_compile eng q =
     (case classify q of
        Atoms as \<Rightarrow> Some (regex_search (case_fold eng) as)
      | Unclosed \<Rightarrow> None
      | Other \<Rightarrow> compile_other eng q)"

text \<open>
  The filter of the list route: the title has a match, or some element of the tags has.
\<close>

definition filter_query :: "(pystr \<Rightarrow> bool) \<Rightarrow> document \<Rightarrow> bool" where
  "filter_query m d = (m (doc_title d) \<or> list_ex m (doc_tags d))"

text \<open>
  \<^verbatim>\<open>.sort("created_at", -1)\<close>: descending, an entry without the key last. The
  driver does not fix the order of entries of equal creation time; here each entry is
  inserted before the first one that is not newer.
\<close>

fun insort_desc :: "document \<Rightarrow> document list \<Rightarrow> document list" where
  "insort_desc d [] = [d]"
| "insort_desc d (e # es) =
     (if doc_created_at e \<le> doc_created_at d then d # e # es else e # insort_desc d es)"

definition sort_desc :: "document list \<Rightarrow> document list" where
  "sort_desc ds = foldr insort_desc ds []"

subsection \<open>The handlers\<close>

text \<open>
  Each handler takes the database handle \<open>db\<close> (None when the database is not
  configured) and returns what it answers or raises, with the collections afterwards.
\<close>

definition no_db :: error where
  "no_db = HTTPException 500 ''Database not configured''"

definition create_document_metadata ::
  "database option \<Rightarrow> oid \<Rightarrow> nat option \<Rightarrow> DocumentCreate \<Rightarrow>
     (error + DocumentOut) \<times> database option" where
  "create_document_metadata db new_id created payload =
     (case db of None \<Rightarrow> (Inl no_db, db)
      | Some st \<Rightarrow>
         (let doc = \<lparr> doc_oid = new_id,
                      doc_title = title payload,
                      doc_tags = list_or_empty (tags payload),
                      doc_notes = notes' payload,
                      doc_mime_type = None,
                      doc_size = None,
                      doc_text_preview = None,
                      doc_file_blob_id = None,
                      doc_created_at = created \<rparr>
          in case create_document doc_oid (DOC_COLLECTION st) doc of
               Inl e \<Rightarrow> (Inl e, db)
             | Inr (inserted_id, coll) \<Rightarrow>
                 (let st' = st\<lparr>DOC_COLLECTION := coll\<rparr>
                  in case ObjectId inserted_id of
                       None \<Rightarrow> (Inl InvalidId, Some st')
                     | Some oid \<Rightarrow>
                         (case find_one (\<lambda>d. doc_oid d = oid) (DOC_COLLECTION st') of
                            None \<Rightarrow> (Inl TypeError, Some st')
                          | Some saved \<Rightarrow> (Inr (document_out saved), Some st')))))"

definition upload_document_file ::
  "database option \<Rightarrow> oid \<Rightarrow> pystr \<Rightarrow> UploadFile \<Rightarrow> (error + DocumentOut) \<times> database option" where
  "upload_document_file db new_id doc_id file =
     (case db of None \<Rightarrow> (Inl no_db, db)
      | Some st \<Rightarrow>
         (case ObjectId doc_id of
            None \<Rightarrow> (Inl (HTTPException 400 ''Invalid document id''), db)
          | Some oid \<Rightarrow>
             (case find_one (\<lambda>d. doc_oid d = oid) (DOC_COLLECTION st) of
                None \<Rightarrow> (Inl (HTTPException 404 ''Document not found''), db)
              | Some existing \<Rightarrow>
                 (let content = file_content file;
                      blob = \<lparr> blob_oid = new_id,
                               blob_doc_id = oid,
                               blob_filename = filename file,
                               blob_content_type = content_type file,
                               blob_size = int (length content),
                               blob_content = content \<rparr>
                  in case create_document blob_oid (FILE_COLLECTION st) blob of
                       Inl e \<Rightarrow> (Inl e, db)
                     | Inr (blob_id, coll) \<Rightarrow>
                         (let st1 = st\<lparr>FILE_COLLECTION := coll\<rparr>
                          in case ObjectId blob_id of
                               None \<Rightarrow> (Inl InvalidId, Some st1)
                             | Some bid \<Rightarrow>
                                 (let st2 = st1\<lparr>DOC_COLLECTION :=
                                        update_one (\<lambda>d. doc_oid d = oid)
                                          (\<lambda>d. d\<lparr>doc_mime_type := content_type file,
                                                 doc_size := Some (int (length content)),
                                                 doc_file_blob_id := Some bid\<rparr>)
                                          (DOC_COLLECTION st1)\<rparr>;
                                      st3 = (if text_like (content_type file)
                                             then st2\<lparr>DOC_COLLECTION :=
                                               update_one (\<lambda>d. doc_oid d = oid)
                                                 (\<lambda>d. d\<lparr>doc_text_preview :=
                                                        Some (decode_ignore (take 1024 content))\<rparr>)
                                                 (DOC_COLLECTION st2)\<rparr>
                                             else st2)
                                  in case find_one (\<lambda>d. doc_oid d = oid) (DOC_COLLECTION st3) of
                                       None \<Rightarrow> (Inl TypeError, Some st3)
                                     | Some updated \<Rightarrow> (Inr (document_out updated), Some st3)))))))"

text \<open>
  \<^verbatim>\<open>StreamingResponse(...)\<close> builds its headers when it is made: the value of each
  header is encoded as latin-1, which raises UnicodeEncodeError on a character above 255,
  the headers given first and the content type after them. A media type that starts with
  \<^verbatim>\<open>text/\<close> and names no charset is sent with \<^verbatim>\<open>; charset=utf-8\<close> appended.
  (Its test lowers the media type with \<^verbatim>\<open>str.lower\<close>, which maps no character
  outside ASCII to a letter of \<^verbatim>\<open>charset=\<close>.)
\<close>

definition latin1 :: "pystr \<Rightarrow> bool" where
  "latin1 s = list_all (\<lambda>c. c < 256) s"

definition ascii_lower :: "nat \<Rightarrow> nat" where
  "ascii_lower c = (if 65 \<le> c \<and> c \<le> 90 then c + 32 else c)"

definition sent_content_type :: "pystr \<Rightarrow> pystr" where
  "sent_content_type mt =
     (if prefix (lit ''text/'') mt \<and> \<not> sublist (lit ''charset='') (map ascii_lower mt)
      then mt @ lit ''; charset=utf-8'' else mt)"

definition streaming_response :: "pybytes \<Rightarrow> pystr \<Rightarrow> pystr \<Rightarrow> error + StreamingResponse" where
  "streaming_response content mt disposition =
     (if \<not> latin1 disposition then Inl UnicodeEncodeError
      else if \<not> latin1 (sent_content_type mt) then Inl UnicodeEncodeError
      else Inr \<lparr> body = content,
                 media_type = mt,
                 content_disposition = disposition,
                 content_type_header = sent_content_type mt \<rparr>)"

definition download_document_file ::
  "database option \<Rightarrow> pystr \<Rightarrow> error + StreamingResponse" where
  "download_document_file db doc_id =
     (case db of None \<Rightarrow> Inl no_db
      | Some st \<Rightarrow>
         (case ObjectId doc_id of
            None \<Rightarrow> Inl (HTTPException 400 ''Invalid document id'')
          | Some oid \<Rightarrow>
             (case find_one (\<lambda>d. doc_oid d = oid) (DOC_COLLECTION st) of
                None \<Rightarrow> Inl (HTTPException 404 ''File not found for this document'')
              | Some doc \<Rightarrow>
                 (case doc_file_blob_id doc of
                    None \<Rightarrow> Inl (HTTPException 404 ''File not found for this document'')
                  | Some bid \<Rightarrow>
                     (case find_one (\<lambda>b. blob_oid b = bid) (FILE_COLLECTION st) of
                        None \<Rightarrow> Inl (HTTPException 404 ''File blob missing'')
                      | Some blob \<Rightarrow>
                          streaming_response (blob_content blob)
                            (str_or (blob_content_type blob) (lit ''application/octet-stream''))
                            (lit ''attachment; filename='' @ format_opt (blob_filename blob)))))))"

text \<open>
  The list route. A query that is None or empty selects every document. The database
  reads the pattern of any other query before it looks at a document, and the driver
  raises when the database rejects it. \<open>list_cursor\<close> is the cursor the route walks
  through, \<open>list_documents\<close> what the route answers.
\<close>

definition list_cursor :: "'a regex_engine_scheme \<Rightarrow> database \<Rightarrow> pystr option \<Rightarrow> error + document list" where
  "list_cursor eng st q =
     (if q = None \<or> q = Some [] then Inr (sort_desc (DOC_COLLECTION st))
      else (case regex_compile eng (the q) of
              None \<Rightarrow> Inl OperationFailure
            | Some m \<Rightarrow> Inr (sort_desc (filter (filter_query m) (DOC_COLLECTION st)))))"

definition list_documents ::
  "'a regex_engine_scheme \<Rightarrow> database option \<Rightarrow> pystr option \<Rightarrow> error + DocumentOut list" where
  "list_documents eng db q =
     (case db of None \<Rightarrow> Inl no_db
      | Some st \<Rightarrow>
         (case list_cursor eng st q of
            Inl e \<Rightarrow> Inl e
          | Inr docs \<Rightarrow> Inr (map document_out docs)))"

definition update_document ::
  "database option \<Rightarrow> pystr \<Rightarrow> DocumentCreate \<Rightarrow> (error + DocumentOut) \<times> database option" where
  "update_document db doc_id payload =
     (case db of None \<Rightarrow> (Inl no_db, db)
      | Some st \<Rightarrow>
         (case ObjectId doc_id of
            None \<Rightarrow> (Inl (HTTPException 400 ''Invalid document id''), db)
          | Some oid \<Rightarrow>
             (let st' = st\<lparr>DOC_COLLECTION :=
                          update_one (\<lambda>d. doc_oid d = oid)
                            (\<lambda>d. d\<lparr>doc_title := title payload,
                                   doc_tags := list_or_empty (tags payload),
                                   doc_notes := notes' payload\<rparr>)
                            (DOC_COLLECTION st)\<rparr>
              in case find_one (\<lambda>d. doc_oid d = oid) (DOC_COLLECTION st') of
                   None \<Rightarrow> (Inl (HTTPException 404 ''Document not found''), Some st')
                 | Some d \<Rightarrow> (Inr (document_out d), Some st'))))"

definition delete_document ::
  "database option \<Rightarrow> pystr \<Rightarrow> (error + string) \<times> database option" where
  "delete_document db doc_id =
     (case db of None \<Rightarrow> (Inl no_db, db)
      | Some st \<Rightarrow>
         (case ObjectId doc_id of
            None \<Rightarrow> (Inl (HTTPException 400 ''Invalid document id''), db)
          | Some oid \<Rightarrow>
             (case find_one (\<lambda>d. doc_oid d = oid) (DOC_COLLECTION st) of
                None \<Rightarrow> (Inl (HTTPException 404 ''Document not found''), db)
              | Some d \<Rightarrow>
                 (let st1 = (case doc_file_blob_id d of
                               None \<Rightarrow> st
                             | Some bid \<Rightarrow>
                                 st\<lparr>FILE_COLLECTION := delete_one (\<lambda>b. blob_oid b = bid) (FILE_COLLECTION st)\<rparr>);
                      st2 = st1\<lparr>DOC_COLLECTION := delete_one (\<lambda>d. doc_oid d = oid) (DOC_COLLECTION st1)\<rparr>
                  in (Inr ''deleted'', Some st2)))))"

subsection \<open>What the spec says\<close>

text \<open>
  The spec's words for the search: the query is contained in the text as a substring,
  letters compared without case, that is, up to the case folding \<open>f\<close>.
\<close>

definition contains_ignoring_case :: "(nat \<Rightarrow> nat) \<Rightarrow> pystr \<Rightarrow> pystr \<Rightarrow> bool" where
  "contains_ignoring_case f q s = sublist (map f q) (map f s)"

text \<open>A query without metacharacters: not empty, ordinary characters only, no dot.\<close>

definition literal_query :: "pystr \<Rightarrow> bool" where
  "literal_query q = (q \<noteq> [] \<and> list_all (\<lambda>c. plain_char c \<and> c \<noteq> 46) q)"

text \<open>An optional string that can be encoded as latin-1 when it is there.\<close>

definition opt_latin1 :: "pystr option \<Rightarrow> bool" where
  "opt_latin1 x = (case x of None \<Rightarrow> True | Some s \<Rightarrow> latin1 s)"

text \<open>The format of an identifier: 24 hexadecimal digits.\<close>

definition id_format :: "pystr \<Rightarrow> bool" where
  "id_format s = (length s = 24 \<and> list_all (\<lambda>c. hex_val c \<noteq> None) s)"

text \<open>The order of the listing: no entry is older than the one after it.\<close>

definition newest_first :: "document list \<Rightarrow> bool" where
  "newest_first ds = sorted_wrt (\<lambda>a b. doc_created_at b \<le> doc_created_at a) ds"

text \<open>The invariant of the database: an identifier names one entry of a collection.\<close>

definition unique_ids :: "database \<Rightarrow> bool" where
  "unique_ids st =
     (distinct (map doc_oid (DOC_COLLECTION st)) \<and> distinct (map blob_oid (FILE_COLLECTION st)))"

subsection \<open>Sample data\<close>

definition sample_id :: pystr where
  "sample_id = lit ''0000000000000000000000a1''"

definition sample_oid :: oid where
  "sample_oid = Oid [0, 0, 0, 0, 0, 0, 0, 0, 0, 0, 0, 161]"

definition sample_blob_oid :: oid where
  "sample_blob_oid = Oid [0, 0, 0, 0, 0, 0, 0, 0, 0, 0, 0, 177]"

definition sample_doc :: document where
  "sample_doc =
     \<lparr> doc_oid = sample_oid,
       doc_title = lit ''Receipt'',
       doc_tags = [lit ''a'', lit ''b''],
       doc_notes = None,
       doc_mime_type = None,
       doc_size = None,
       doc_text_preview = None,
       doc_file_blob_id = None,
       doc_created_at = Some 7 \<rparr>"

definition sample_db :: database where
  "sample_db = \<lparr> DOC_COLLECTION = [sample_doc], FILE_COLLECTION = [] \<rparr>"

definition sample_blob :: fileblob where
  "sample_blob =
     \<lparr> blob_oid = sample_blob_oid,
       blob_doc_id = sample_oid,
       blob_filename = Some (lit ''a.txt''),
       blob_content_type = Some (lit ''text/plain''),
       blob_size = 11,
       blob_content = map of_nat (lit ''hello world'') \<rparr>"

definition sample_doc_with_file :: document where
  "sample_doc_with_file =
     sample_doc\<lparr> doc_mime_type := Some (lit ''text/plain''),
                 doc_size := Some 11,
                 doc_text_preview := Some (lit ''hello world''),
                 doc_file_blob_id := Some sample_blob_oid \<rparr>"

definition sample_db_with_file :: database where
  "sample_db_with_file = \<lparr> DOC_COLLECTION = [sample_doc_with_file], FILE_COLLECTION = [sample_blob] \<rparr>"

definition other_id :: pystr where
  "other_id = lit ''0000000000000000000000FF''"

definition other_oid :: oid where
  "other_oid = Oid [0, 0, 0, 0, 0, 0, 0, 0, 0, 0, 0, 255]"

definition sample_payload :: DocumentCreate where
  "sample_payload = \<lparr> title = lit ''Invoice #2'', tags = Some [lit ''x''], notes' = None \<rparr>"

definition text_file :: UploadFile where
  "text_file =
     \<lparr> filename = Some (lit ''a.txt''),
       content_type = Some (lit ''text/plain''),
       file_content = map of_nat (lit ''hello world'') \<rparr>"

definition binary_file :: UploadFile where
  "binary_file =
     \<lparr> filename = Some (lit ''a.bin''),
       content_type = Some (lit ''application/octet-stream''),
       file_content = [0, 255] \<rparr>"

text \<open>A file named with the two characters U+65E5 and U+672C before \<^verbatim>\<open>.txt\<close>.\<close>

definition unicode_file :: UploadFile where
  "unicode_file =
     \<lparr> filename = Some ([26085, 26412] @ lit ''.txt''),
       content_type = Some (lit ''text/plain''),
       file_content = map of_nat (lit ''hello world'') \<rparr>"

text \<open>Eight pairs of digits, a space after each: 24 characters, eight octets.\<close>

definition spaced_id :: pystr where
  "spaced_id = lit ''00 00 00 00 00 00 00 00 ''"

text \<open>An engine that folds the ASCII letters and takes no pattern beyond the fixed ones.\<close>

definition sample_engine :: regex_engine where
  "sample_engine = \<lparr> case_fold = ascii_lower, compile_other = (\<lambda>q. None) \<rparr>"

definition invoice_doc :: document where
  "invoice_doc =
     \<lparr> doc_oid = Oid [0, 0, 0, 0, 0, 0, 0, 0, 0, 0, 0, 162],
       doc_title = lit ''Invoice #2'',
       doc_tags = [lit ''tax''],
       doc_notes = None,
       doc_mime_type = None,
       doc_size = None,
       doc_text_preview = None,
       doc_file_blob_id = None,
       doc_created_at = Some 9 \<rparr>"

definition draft_doc :: document where
  "draft_doc =
     \<lparr> doc_oid = Oid [0, 0, 0, 0, 0, 0, 0, 0, 0, 0, 0, 163],
       doc_title = lit ''Draft'',
       doc_tags = [lit ''todo'', lit ''INVOICES''],
       doc_notes = None,
       doc_mime_type = None,
       doc_size = None,
       doc_text_preview = None,
       doc_file_blob_id = None,
       doc_created_at = None \<rparr>"

definition sample_library :: database where
  "sample_library =
     \<lparr> DOC_COLLECTION = [sample_doc, draft_doc, invoice_doc], FILE_COLLECTION = [] \<rparr>"

definition untyped_file :: UploadFile where
  "untyped_file = \<lparr> filename = Some (lit ''a''), content_type = None, file_content = [1, 2, 3] \<rparr>"

section \<open>Properties\<close>

subsection \<open>The driver's operations\<close>

lemma find_update_one:
  assumes "\<And>x. p x \<Longrightarrow> p (f x)"
  shows "find p (update_one p f xs) = map_option f (find p xs)"
  using assms by (induction xs) auto

lemma update_one_absent: "find p xs = None \<Longrightarrow> update_one p f xs = xs"
  by (induction xs) (auto split: if_splits)

lemma find_key_absent: "k \<notin> set (map key xs) \<Longrightarrow> find (\<lambda>x. key x = k) xs = None"
  by (induction xs) auto

lemma find_append_new:
  "find p xs = None \<Longrightarrow> find p (xs @ [x]) = (if p x then Some x else None)"
  by (induction xs) (auto split: if_splits)

lemma find_delete_one:
  "distinct (map key xs) \<Longrightarrow> find (\<lambda>x. key x = k) (delete_one (\<lambda>x. key x = k) xs) = None"
  by (induction xs) (auto simp: find_key_absent)

lemma delete_one_key_gone:
  "distinct (map key xs) \<Longrightarrow> k \<notin> key ` set (delete_one (\<lambda>x. key x = k) xs)"
  by (induction xs) auto

subsection \<open>Identifiers are read back as they are written\<close>

lemma hex_val_hex_digit: "n < 16 \<Longrightarrow> hex_val (hex_digit n) = Some n"
  by (simp add: hex_val_def hex_digit_def)

lemma unat_byte_div_16: "unat (b :: 8 word) div 16 < 16"
proof -
  have "unat b < 256" using unsigned_less [of b, where ?'a = nat] by simp
  then show ?thesis by arith
qed

lemma hex_digit_not_space: "n < 16 \<Longrightarrow> \<not> is_space (hex_digit n)"
  by (simp add: is_space_def hex_digit_def)

lemma fromhex_str:
  "fromhex (concat (map (\<lambda>b. [hex_digit (unat b div 16), hex_digit (unat b mod 16)]) bs)) = Some bs"
  by (induction bs) (simp_all add: hex_val_hex_digit hex_digit_not_space unat_byte_div_16)

lemma ObjectId_str_oid: "length bs = 12 \<Longrightarrow> ObjectId (str_oid (Oid bs)) = Some (Oid bs)"
  by (simp add: ObjectId_def fromhex_str length_concat comp_def sum_list_triv)

subsection \<open>Unique identifiers are kept\<close>

text \<open>
  Every handler leaves a database with unique identifiers in that state, whatever it
  answers.
\<close>

lemma map_key_update_one: "(\<And>x. key (f x) = key x) \<Longrightarrow> map key (update_one p f xs) = map key xs"
  by (induction xs) auto

lemma set_delete_one: "set (delete_one p xs) \<subseteq> set xs"
  by (induction xs) auto

lemma distinct_delete_one: "distinct (map key xs) \<Longrightarrow> distinct (map key (delete_one p xs))"
proof (induction xs)
  case Nil
  then show ?case by simp
next
  case (Cons x xs)
  then show ?case using set_delete_one [of p xs] by auto
qed

lemma unique_ids_create:
  assumes "unique_ids st"
    and "create_document_metadata (Some st) new_id created payload = (r, Some st')"
  shows "unique_ids st'"
  using assms
  by (auto simp: create_document_metadata_def create_document_def unique_ids_def Let_def
      split: if_splits option.splits)

lemma unique_ids_upload:
  assumes "unique_ids st"
    and "upload_document_file (Some st) new_id doc_id file = (r, Some st')"
  shows "unique_ids st'"
  using assms
  by (auto simp: upload_document_file_def create_document_def unique_ids_def Let_def
      map_key_update_one split: if_splits option.splits)

lemma unique_ids_update:
  assumes "unique_ids st"
    and "update_document (Some st) doc_id payload = (r, Some st')"
  shows "unique_ids st'"
  using assms
  by (auto simp: update_document_def unique_ids_def Let_def map_key_update_one
      split: if_splits option.splits)

lemma unique_ids_delete:
  assumes "unique_ids st"
    and "delete_document (Some st) doc_id = (r, Some st')"
  shows "unique_ids st'"
  using assms
  by (auto simp: delete_document_def unique_ids_def Let_def distinct_delete_one
      split: if_splits option.splits)

subsection \<open>Upload\<close>

text \<open>
  C2. An upload to an existing document, the blob stored under a fresh identifier,
  succeeds; the stored document then has the byte length of the payload as its size and
  the uploader's content type as its mime type, and the returned representation is that
  of the stored document, with the same two values.
\<close>

theorem upload_sets_size_and_mime_type:
  assumes "ObjectId doc_id = Some oid"
    and "find_one (\<lambda>d. doc_oid d = oid) (DOC_COLLECTION st) = Some d"
    and "new_id \<notin> set (map blob_oid (FILE_COLLECTION st))"
    and "new_id = Oid bs" and "length bs = 12"
  shows "\<exists>d' st'. upload_document_file (Some st) new_id doc_id file = (Inr (document_out d'), Some st')
           \<and> find_one (\<lambda>d. doc_oid d = oid) (DOC_COLLECTION st') = Some d'
           \<and> doc_size d' = Some (int (length (file_content file)))
           \<and> doc_mime_type d' = content_type file
           \<and> out_size (document_out d') = Some (int (length (file_content file)))
           \<and> out_mime_type (document_out d') = content_type file"
  using assms
  by (simp add: upload_document_file_def find_one_def create_document_def find_update_one Let_def
      document_out_def ObjectId_str_oid del: str_oid.simps)

theorem upload_sets_size_and_mime_type_witness:
  "ObjectId sample_id = Some sample_oid
   \<and> find_one (\<lambda>d. doc_oid d = sample_oid) (DOC_COLLECTION sample_db) = Some sample_doc
   \<and> sample_blob_oid \<notin> set (map blob_oid (FILE_COLLECTION sample_db))
   \<and> (\<exists>d' st'. upload_document_file (Some sample_db) sample_blob_oid sample_id text_file
                  = (Inr (document_out d'), Some st')
        \<and> doc_size d' = Some 11 \<and> doc_mime_type d' = Some (lit ''text/plain''))"
proof -
  have h1: "ObjectId sample_id = Some sample_oid"
    by (simp add: sample_id_def sample_oid_def lit_def ObjectId_def hex_val_def is_space_def)
  have h2: "find_one (\<lambda>d. doc_oid d = sample_oid) (DOC_COLLECTION sample_db) = Some sample_doc"
    by (simp add: find_one_def sample_db_def sample_doc_def)
  have h3: "sample_blob_oid \<notin> set (map blob_oid (FILE_COLLECTION sample_db))"
    by (simp add: sample_db_def)
  have f: "length (file_content text_file) = 11" "content_type text_file = Some (lit ''text/plain'')"
    by (simp_all add: text_file_def lit_def)
  have h4: "sample_blob_oid = Oid [0, 0, 0, 0, 0, 0, 0, 0, 0, 0, 0, 177]"
    by (simp add: sample_blob_oid_def)
  have h5: "length [0, 0, 0, 0, 0, 0, 0, 0, 0, 0, 0, 177 :: 8 word] = 12"
    by simp
  from f upload_sets_size_and_mime_type [OF h1 h2 h3 h4 h5, of text_file] h1 h2 h3 show ?thesis
    by auto
qed

subsection \<open>Update\<close>

text \<open>
  C6. An update of an existing document succeeds and stores the document with title,
  tags and notes of the payload (no tags in the payload give the empty list) and every
  other field as before: mime type, size, text preview and blob reference are unchanged,
  and so is the collection of blobs. The answer is the representation of the stored
  document.
\<close>

theorem update_replaces_metadata:
  assumes "ObjectId doc_id = Some oid"
    and "find_one (\<lambda>d. doc_oid d = oid) (DOC_COLLECTION st) = Some d"
  shows "\<exists>d' st'. update_document (Some st) doc_id payload = (Inr (document_out d'), Some st')
           \<and> find_one (\<lambda>d. doc_oid d = oid) (DOC_COLLECTION st') = Some d'
           \<and> d' = d\<lparr>doc_title := title payload,
                    doc_tags := list_or_empty (tags payload),
                    doc_notes := notes' payload\<rparr>
           \<and> doc_mime_type d' = doc_mime_type d \<and> doc_size d' = doc_size d
           \<and> doc_text_preview d' = doc_text_preview d
           \<and> doc_file_blob_id d' = doc_file_blob_id d
           \<and> FILE_COLLECTION st' = FILE_COLLECTION st"
  using assms by (simp add: update_document_def find_one_def find_update_one Let_def)

theorem update_replaces_metadata_witness:
  "ObjectId sample_id = Some sample_oid
   \<and> find_one (\<lambda>d. doc_oid d = sample_oid) (DOC_COLLECTION sample_db_with_file) = Some sample_doc_with_file
   \<and> (\<exists>d' st'. update_document (Some sample_db_with_file) sample_id sample_payload
                  = (Inr (document_out d'), Some st')
        \<and> doc_title d' = lit ''Invoice #2'' \<and> doc_tags d' = [lit ''x''] \<and> doc_notes d' = None
        \<and> doc_size d' = Some 11 \<and> doc_file_blob_id d' = Some sample_blob_oid)"
proof -
  have h1: "ObjectId sample_id = Some sample_oid"
    by (simp add: sample_id_def sample_oid_def lit_def ObjectId_def hex_val_def is_space_def)
  have h2: "find_one (\<lambda>d. doc_oid d = sample_oid) (DOC_COLLECTION sample_db_with_file)
              = Some sample_doc_with_file"
    by (simp add: find_one_def sample_db_with_file_def sample_doc_with_file_def sample_doc_def)
  have p: "title sample_payload = lit ''Invoice #2''" "list_or_empty (tags sample_payload) = [lit ''x'']"
    "notes' sample_payload = None"
    by (simp_all add: sample_payload_def list_or_empty_def)
  have d: "doc_size sample_doc_with_file = Some 11"
    "doc_file_blob_id sample_doc_with_file = Some sample_blob_oid"
    by (simp_all add: sample_doc_with_file_def)
  from update_replaces_metadata [OF h1 h2, of sample_payload] h1 h2 p d show ?thesis
    by auto
qed

text \<open>
  C10. An update under a well-formed identifier that names no stored document answers
  404 and leaves the database as it was.
\<close>

theorem update_missing_document:
  assumes "ObjectId doc_id = Some oid"
    and "find_one (\<lambda>d. doc_oid d = oid) (DOC_COLLECTION st) = None"
  shows "update_document (Some st) doc_id payload =
           (Inl (HTTPException 404 ''Document not found''), Some st)"
  using assms by (simp add: update_document_def find_one_def update_one_absent)

theorem update_missing_document_witness:
  "ObjectId other_id = Some other_oid
   \<and> find_one (\<lambda>d. doc_oid d = other_oid) (DOC_COLLECTION sample_db) = None
   \<and> update_document (Some sample_db) other_id sample_payload =
       (Inl (HTTPException 404 ''Document not found''), Some sample_db)"
proof -
  have h1: "ObjectId other_id = Some other_oid"
    by (simp add: other_id_def other_oid_def lit_def ObjectId_def hex_val_def is_space_def)
  have h2: "find_one (\<lambda>d. doc_oid d = other_oid) (DOC_COLLECTION sample_db) = None"
    by (simp add: find_one_def sample_db_def sample_doc_def sample_oid_def other_oid_def)
  from update_missing_document [OF h1 h2] h1 h2 show ?thesis by simp
qed

subsection \<open>Delete\<close>

text \<open>
  C7. In a database with unique identifiers, deleting a document that refers to a blob
  succeeds; afterwards no document has its identifier, no blob has the identifier it
  referred to, and a download under the document's identifier answers 404.
\<close>

theorem delete_removes_document_and_blob:
  assumes "ObjectId doc_id = Some oid"
    and "find_one (\<lambda>d. doc_oid d = oid) (DOC_COLLECTION st) = Some d"
    and "doc_file_blob_id d = Some bid"
    and "unique_ids st"
  shows "\<exists>st'. delete_document (Some st) doc_id = (Inr ''deleted'', Some st')
           \<and> oid \<notin> doc_oid ` set (DOC_COLLECTION st')
           \<and> bid \<notin> blob_oid ` set (FILE_COLLECTION st')
           \<and> download_document_file (Some st') doc_id =
                Inl (HTTPException 404 ''File not found for this document'')"
  using assms
  by (simp add: delete_document_def download_document_file_def find_one_def unique_ids_def
      find_delete_one delete_one_key_gone Let_def)

theorem delete_removes_document_and_blob_witness:
  "ObjectId sample_id = Some sample_oid
   \<and> find_one (\<lambda>d. doc_oid d = sample_oid) (DOC_COLLECTION sample_db_with_file) = Some sample_doc_with_file
   \<and> doc_file_blob_id sample_doc_with_file = Some sample_blob_oid
   \<and> unique_ids sample_db_with_file
   \<and> (\<exists>st'. delete_document (Some sample_db_with_file) sample_id = (Inr ''deleted'', Some st')
        \<and> sample_oid \<notin> doc_oid ` set (DOC_COLLECTION st')
        \<and> sample_blob_oid \<notin> blob_oid ` set (FILE_COLLECTION st')
        \<and> download_document_file (Some st') sample_id =
             Inl (HTTPException 404 ''File not found for this document''))"
proof -
  have h1: "ObjectId sample_id = Some sample_oid"
    by (simp add: sample_id_def sample_oid_def lit_def ObjectId_def hex_val_def is_space_def)
  have h2: "find_one (\<lambda>d. doc_oid d = sample_oid) (DOC_COLLECTION sample_db_with_file)
              = Some sample_doc_with_file"
    by (simp add: find_one_def sample_db_with_file_def sample_doc_with_file_def sample_doc_def)
  have h3: "doc_file_blob_id sample_doc_with_file = Some sample_blob_oid"
    by (simp add: sample_doc_with_file_def)
  have h4: "unique_ids sample_db_with_file"
    by (simp add: unique_ids_def sample_db_with_file_def)
  from delete_removes_document_and_blob [OF h1 h2 h3 h4] h1 h2 h3 h4 show ?thesis by simp
qed

subsection \<open>Create\<close>

text \<open>
  C8. Creating a document under a fresh identifier succeeds. The answer carries the
  title, tags (the empty list when the payload has none) and notes of the payload and no
  mime type, size or text preview; its id reads back as the identifier, and the document
  found under that identifier has exactly the answer as its representation and no blob
  reference.
\<close>

theorem create_stores_payload:
  assumes "new_id \<notin> set (map doc_oid (DOC_COLLECTION st))"
    and "new_id = Oid bs" and "length bs = 12"
  shows "\<exists>out st' d. create_document_metadata (Some st) new_id created payload = (Inr out, Some st')
           \<and> out_title out = title payload
           \<and> out_tags out = list_or_empty (tags payload)
           \<and> out_notes out = notes' payload
           \<and> out_mime_type out = None \<and> out_size out = None \<and> out_text_preview out = None
           \<and> ObjectId (out_id out) = Some new_id
           \<and> find_one (\<lambda>d. doc_oid d = new_id) (DOC_COLLECTION st') = Some d
           \<and> document_out d = out \<and> doc_file_blob_id d = None"
  using assms
  by (simp add: create_document_metadata_def create_document_def find_one_def Let_def
      find_append_new find_key_absent document_out_def ObjectId_str_oid del: str_oid.simps)

theorem create_stores_payload_witness:
  "other_oid \<notin> set (map doc_oid (DOC_COLLECTION sample_db))
   \<and> (\<exists>out st' d. create_document_metadata (Some sample_db) other_oid (Some 9) sample_payload
                     = (Inr out, Some st')
        \<and> out_title out = lit ''Invoice #2'' \<and> out_tags out = [lit ''x''] \<and> out_notes out = None
        \<and> out_mime_type out = None \<and> out_size out = None \<and> out_text_preview out = None
        \<and> ObjectId (out_id out) = Some other_oid
        \<and> find_one (\<lambda>d. doc_oid d = other_oid) (DOC_COLLECTION st') = Some d
        \<and> document_out d = out \<and> doc_file_blob_id d = None)"
proof -
  have h1: "other_oid \<notin> set (map doc_oid (DOC_COLLECTION sample_db))"
    by (simp add: sample_db_def sample_doc_def sample_oid_def other_oid_def)
  have h2: "other_oid = Oid [0, 0, 0, 0, 0, 0, 0, 0, 0, 0, 0, 255]"
    by (simp add: other_oid_def)
  have h3: "length [0, 0, 0, 0, 0, 0, 0, 0, 0, 0, 0, 255 :: 8 word] = 12"
    by simp
  have p: "title sample_payload = lit ''Invoice #2''" "list_or_empty (tags sample_payload) = [lit ''x'']"
    "notes' sample_payload = None"
    by (simp_all add: sample_payload_def list_or_empty_def)
  from create_stores_payload [OF h1 h2 h3, of "Some 9" sample_payload] h1 p show ?thesis
    by simp
qed

subsection \<open>Download after upload\<close>

lemma latin1_append: "latin1 (xs @ ys) = (latin1 xs \<and> latin1 ys)"
  by (simp add: latin1_def)

lemma latin1_sent_content_type: "latin1 (sent_content_type mt) = latin1 mt"
  by (simp add: sent_content_type_def latin1_append) (simp add: latin1_def lit_def)

lemma latin1_format_opt: "opt_latin1 x \<Longrightarrow> latin1 (format_opt x)"
  by (cases x) (simp_all add: opt_latin1_def format_opt_def latin1_def lit_def)

lemma latin1_str_or: "opt_latin1 x \<Longrightarrow> latin1 (str_or x (lit ''application/octet-stream''))"
  by (cases x) (simp_all add: opt_latin1_def str_or_def latin1_def lit_def)

lemma streaming_response_latin1:
  assumes "opt_latin1 fn" and "opt_latin1 ct"
  shows "streaming_response content (str_or ct (lit ''application/octet-stream''))
           (lit ''attachment; filename='' @ format_opt fn) =
         Inr \<lparr> body = content,
               media_type = str_or ct (lit ''application/octet-stream''),
               content_disposition = lit ''attachment; filename='' @ format_opt fn,
               content_type_header = sent_content_type (str_or ct (lit ''application/octet-stream'')) \<rparr>"
proof -
  have "latin1 (lit ''attachment; filename='')"
    by (simp add: latin1_def lit_def)
  with assms show ?thesis
    by (simp add: streaming_response_def latin1_append latin1_sent_content_type latin1_format_opt
        latin1_str_or)
qed

text \<open>
  C1 (as amended). An upload to an existing document, the blob stored under a fresh
  identifier, succeeds. When the file name and the content type of the upload can be
  encoded as latin-1, a download under the same identifier right after it answers the
  uploaded bytes, unchanged, with the file name of the upload in its disposition header.
  Its media type is the content type of the upload, or \<^verbatim>\<open>application/octet-stream\<close>
  when the upload gave none or an empty one, and it is sent with \<^verbatim>\<open>; charset=utf-8\<close>
  appended when it starts with \<^verbatim>\<open>text/\<close> and names no charset.
\<close>

theorem download_after_upload:
  assumes "ObjectId doc_id = Some oid"
    and "find_one (\<lambda>d. doc_oid d = oid) (DOC_COLLECTION st) = Some d"
    and "new_id \<notin> set (map blob_oid (FILE_COLLECTION st))"
    and "new_id = Oid bs" and "length bs = 12"
    and "opt_latin1 (filename file)" and "opt_latin1 (content_type file)"
  shows "\<exists>out st'. upload_document_file (Some st) new_id doc_id file = (Inr out, Some st')
           \<and> download_document_file (Some st') doc_id =
               Inr \<lparr> body = file_content file,
                     media_type = str_or (content_type file) (lit ''application/octet-stream''),
                     content_disposition = lit ''attachment; filename='' @ format_opt (filename file),
                     content_type_header =
                       sent_content_type (str_or (content_type file) (lit ''application/octet-stream'')) \<rparr>"
  using assms
  by (simp add: upload_document_file_def download_document_file_def find_one_def create_document_def
      find_update_one Let_def find_append_new find_key_absent ObjectId_str_oid
      streaming_response_latin1 del: str_oid.simps)

theorem download_after_upload_witness:
  "ObjectId sample_id = Some sample_oid
   \<and> find_one (\<lambda>d. doc_oid d = sample_oid) (DOC_COLLECTION sample_db) = Some sample_doc
   \<and> sample_blob_oid \<notin> set (map blob_oid (FILE_COLLECTION sample_db))
   \<and> opt_latin1 (filename text_file) \<and> opt_latin1 (content_type text_file)
   \<and> (\<exists>out st'. upload_document_file (Some sample_db) sample_blob_oid sample_id text_file
                  = (Inr out, Some st')
        \<and> download_document_file (Some st') sample_id =
             Inr \<lparr> body = map of_nat (lit ''hello world''),
                   media_type = lit ''text/plain'',
                   content_disposition = lit ''attachment; filename=a.txt'',
                   content_type_header = lit ''text/plain; charset=utf-8'' \<rparr>)"
proof -
  have h1: "ObjectId sample_id = Some sample_oid"
    by (simp add: sample_id_def sample_oid_def lit_def ObjectId_def hex_val_def is_space_def)
  have h2: "find_one (\<lambda>d. doc_oid d = sample_oid) (DOC_COLLECTION sample_db) = Some sample_doc"
    by (simp add: find_one_def sample_db_def sample_doc_def)
  have h3: "sample_blob_oid \<notin> set (map blob_oid (FILE_COLLECTION sample_db))"
    by (simp add: sample_db_def)
  have h4: "sample_blob_oid = Oid [0, 0, 0, 0, 0, 0, 0, 0, 0, 0, 0, 177]"
    by (simp add: sample_blob_oid_def)
  have h5: "length [0, 0, 0, 0, 0, 0, 0, 0, 0, 0, 0, 177 :: 8 word] = 12"
    by simp
  have h6: "opt_latin1 (filename text_file)"
    by (simp add: opt_latin1_def latin1_def text_file_def lit_def)
  have h7: "opt_latin1 (content_type text_file)"
    by (simp add: opt_latin1_def latin1_def text_file_def lit_def)
  have f: "file_content text_file = map of_nat (lit ''hello world'')"
    "str_or (content_type text_file) (lit ''application/octet-stream'') = lit ''text/plain''"
    "lit ''attachment; filename='' @ format_opt (filename text_file) = lit ''attachment; filename=a.txt''"
    by (simp_all add: text_file_def str_or_def format_opt_def lit_def)
  have g: "sent_content_type (lit ''text/plain'') = lit ''text/plain; charset=utf-8''"
    by (simp add: sent_content_type_def lit_def ascii_lower_def sublist_code)
  from download_after_upload [OF h1 h2 h3 h4 h5 h6 h7] h1 h2 h3 h6 h7 show ?thesis
    unfolding f g by simp
qed

text \<open>
  A file uploaded without a content type is stored with none and is served as
  \<^verbatim>\<open>application/octet-stream\<close>: the content type served is not the one stored. A
  file uploaded under a name with characters above 255 is stored, and the download after
  it raises UnicodeEncodeError and is answered 500.
\<close>

theorem download_content_type_counterexample:
  "content_type untyped_file = None
   \<and> \<not> isl (fst (upload_document_file (Some sample_db) sample_blob_oid sample_id untyped_file))
   \<and> map (\<lambda>b. blob_content_type b)
        (FILE_COLLECTION (the (snd (upload_document_file (Some sample_db) sample_blob_oid sample_id untyped_file))))
       = [None]
   \<and> download_document_file
        (snd (upload_document_file (Some sample_db) sample_blob_oid sample_id untyped_file)) sample_id
       = Inr \<lparr> body = [1, 2, 3],
               media_type = lit ''application/octet-stream'',
               content_disposition = lit ''attachment; filename=a'',
               content_type_header = lit ''application/octet-stream'' \<rparr>
   \<and> \<not> isl (fst (upload_document_file (Some sample_db) sample_blob_oid sample_id unicode_file))
   \<and> download_document_file
        (snd (upload_document_file (Some sample_db) sample_blob_oid sample_id unicode_file)) sample_id
       = Inl UnicodeEncodeError
   \<and> status_code UnicodeEncodeError = 500"
  by (simp add: upload_document_file_def download_document_file_def find_one_def create_document_def
      Let_def sample_db_def sample_doc_def sample_id_def sample_oid_def sample_blob_oid_def
      untyped_file_def unicode_file_def lit_def ObjectId_def hex_val_def is_space_def hex_digit_def
      text_like_def str_or_def format_opt_def streaming_response_def latin1_def sent_content_type_def
      sublist_code decode_ignore_def)

subsection \<open>Text preview\<close>

lemma upload_text_preview_or_unchanged:
  assumes "ObjectId doc_id = Some oid"
    and "find_one (\<lambda>d. doc_oid d = oid) (DOC_COLLECTION st) = Some d"
    and "new_id \<notin> set (map blob_oid (FILE_COLLECTION st))"
    and "new_id = Oid bs" and "length bs = 12"
  shows "\<exists>d' st'. upload_document_file (Some st) new_id doc_id file = (Inr (document_out d'), Some st')
           \<and> find_one (\<lambda>d. doc_oid d = oid) (DOC_COLLECTION st') = Some d'
           \<and> doc_text_preview d' =
               (if text_like (content_type file)
                then Some (decode_ignore (take 1024 (file_content file)))
                else doc_text_preview d)"
  using assms
  by (simp add: upload_document_file_def find_one_def create_document_def find_update_one Let_def
      ObjectId_str_oid del: str_oid.simps)

text \<open>
  C5 (the code at the failing input). A first upload of the text \<^verbatim>\<open>hello world\<close> as
  \<^verbatim>\<open>text/plain\<close> sets the preview to \<^verbatim>\<open>hello world\<close>. A second upload to the same
  document, of two octets as \<^verbatim>\<open>application/octet-stream\<close>, answers the new mime type
  with the preview of the first file: the preview is not null.
\<close>

theorem stale_preview_after_second_upload:
  "upload_document_file (Some sample_db) sample_blob_oid sample_id text_file =
     (Inr (document_out sample_doc_with_file), Some sample_db_with_file)
   \<and> out_text_preview (document_out sample_doc_with_file) = Some (lit ''hello world'')
   \<and> \<not> text_like (content_type binary_file)
   \<and> map_sum id out_text_preview
        (fst (upload_document_file (Some sample_db_with_file) other_oid sample_id binary_file))
       = Inr (Some (lit ''hello world''))
   \<and> map_sum id out_mime_type
        (fst (upload_document_file (Some sample_db_with_file) other_oid sample_id binary_file))
       = Inr (Some (lit ''application/octet-stream''))"
  by (simp add: upload_document_file_def find_one_def create_document_def
      Let_def sample_db_def sample_doc_def sample_id_def sample_oid_def sample_blob_oid_def
      sample_db_with_file_def sample_doc_with_file_def sample_blob_def other_oid_def
      text_file_def binary_file_def lit_def ObjectId_def hex_val_def is_space_def hex_digit_def text_like_def
      decode_ignore_def document_out_def sublist_code)

subsection \<open>Malformed identifiers\<close>

text \<open>
  What the parser of identifiers rejects and what it takes: it rejects every string that
  is not 24 characters long and every string with a character that is neither a
  hexadecimal digit nor ASCII whitespace, and it reads every string of the identifier
  format as twelve octets.
\<close>

lemma fromhex_chars: "fromhex s = Some bs \<Longrightarrow> c \<in> set s \<Longrightarrow> hex_val c \<noteq> None \<or> is_space c"
  by (induction s arbitrary: bs rule: fromhex.induct) (auto split: if_splits option.splits)

lemma ObjectId_rejects:
  assumes "length s \<noteq> 24 \<or> (\<exists>c \<in> set s. hex_val c = None \<and> \<not> is_space c)"
  shows "ObjectId s = None"
proof (rule ccontr)
  assume "ObjectId s \<noteq> None"
  then obtain bs where l: "length s = 24" and f: "fromhex s = Some bs"
    by (auto simp: ObjectId_def split: if_splits)
  with assms obtain c where "c \<in> set s" "hex_val c = None" "\<not> is_space c"
    by auto
  with fromhex_chars [OF f, of c] show False by simp
qed

lemma hex_not_space: "hex_val c \<noteq> None \<Longrightarrow> \<not> is_space c"
  by (auto simp: hex_val_def is_space_def split: if_splits)

lemma fromhex_digits:
  "list_all (\<lambda>c. hex_val c \<noteq> None) s \<Longrightarrow> even (length s) \<Longrightarrow>
     \<exists>bs. fromhex s = Some bs \<and> 2 * length bs = length s"
  by (induction s rule: fromhex.induct) (fastforce simp: hex_not_space)+

lemma id_format_parses: "id_format s \<Longrightarrow> \<exists>bs. ObjectId s = Some (Oid bs) \<and> length bs = 12"
  using fromhex_digits [of s] by (auto simp: id_format_def ObjectId_def)

text \<open>
  C4 (as amended). With the database configured, each of upload, download, update and
  delete answers an identifier that the parser of identifiers rejects with the validation
  error 400, and leaves the database as it was.
\<close>

theorem malformed_id_is_rejected:
  assumes "ObjectId doc_id = None"
  shows "upload_document_file (Some st) new_id doc_id file =
           (Inl (HTTPException 400 ''Invalid document id''), Some st)
       \<and> download_document_file (Some st) doc_id = Inl (HTTPException 400 ''Invalid document id'')
       \<and> update_document (Some st) doc_id payload =
           (Inl (HTTPException 400 ''Invalid document id''), Some st)
       \<and> delete_document (Some st) doc_id =
           (Inl (HTTPException 400 ''Invalid document id''), Some st)"
  using assms
  by (simp add: upload_document_file_def download_document_file_def update_document_def
      delete_document_def)

theorem malformed_id_is_rejected_witness:
  "ObjectId (lit ''xyz'') = None
   \<and> upload_document_file (Some sample_db) other_oid (lit ''xyz'') text_file =
       (Inl (HTTPException 400 ''Invalid document id''), Some sample_db)
   \<and> download_document_file (Some sample_db) (lit ''xyz'') = Inl (HTTPException 400 ''Invalid document id'')
   \<and> update_document (Some sample_db) (lit ''xyz'') sample_payload =
       (Inl (HTTPException 400 ''Invalid document id''), Some sample_db)
   \<and> delete_document (Some sample_db) (lit ''xyz'') =
       (Inl (HTTPException 400 ''Invalid document id''), Some sample_db)"
proof -
  have h: "ObjectId (lit ''xyz'') = None"
    by (simp add: ObjectId_def lit_def)
  from malformed_id_is_rejected [OF h] h show ?thesis by simp
qed

text \<open>
  Without a database the four routes answer a malformed identifier with the server
  error 500: the check of the handle comes first. With a database, a string of 24
  characters made of pairs of digits and spaces is not of the identifier format, yet the
  parser takes it, and the four routes answer it as an identifier that names no
  document, with 404.
\<close>

theorem malformed_id_other_answers_counterexample:
  "ObjectId (lit ''xyz'') = None
   \<and> map_sum status_code id (fst (upload_document_file None other_oid (lit ''xyz'') text_file)) = Inl 500
   \<and> map_sum status_code id (download_document_file None (lit ''xyz'')) = Inl 500
   \<and> map_sum status_code id (fst (update_document None (lit ''xyz'') sample_payload)) = Inl 500
   \<and> map_sum status_code id (fst (delete_document None (lit ''xyz''))) = Inl 500
   \<and> \<not> id_format spaced_id
   \<and> map_sum status_code id (fst (upload_document_file (Some sample_db) other_oid spaced_id text_file)) = Inl 404
   \<and> map_sum status_code id (download_document_file (Some sample_db) spaced_id) = Inl 404
   \<and> map_sum status_code id (fst (update_document (Some sample_db) spaced_id sample_payload)) = Inl 404
   \<and> map_sum status_code id (fst (delete_document (Some sample_db) spaced_id)) = Inl 404"
  by (simp add: ObjectId_def lit_def upload_document_file_def download_document_file_def
      update_document_def delete_document_def no_db_def spaced_id_def id_format_def hex_val_def
      is_space_def find_one_def sample_db_def sample_doc_def sample_oid_def)

subsection \<open>Listing\<close>

lemma set_insort_desc: "set (insort_desc d es) = insert d (set es)"
  by (induction es) auto

lemma newest_first_insort: "newest_first es \<Longrightarrow> newest_first (insort_desc d es)"
  unfolding newest_first_def
  by (induction es) (auto simp: set_insort_desc)

lemma newest_first_sort_desc: "newest_first (sort_desc ds)"
  unfolding sort_desc_def
  by (induction ds) (simp_all add: newest_first_insort, simp add: newest_first_def)

lemma mset_insort_desc: "mset (insort_desc d es) = add_mset d (mset es)"
  by (induction es) auto

lemma mset_sort_desc: "mset (sort_desc ds) = mset ds"
  unfolding sort_desc_def by (induction ds) (simp_all add: mset_insort_desc)

lemma sort_sample_library:
  "sort_desc (DOC_COLLECTION sample_library) = [invoice_doc, sample_doc, draft_doc]"
  by (simp add: sort_desc_def sample_library_def sample_doc_def invoice_doc_def draft_doc_def)

text \<open>
  C9 (as amended). Without a query the list route answers every stored document, once
  each; with a query that the database takes as a regular expression it answers the
  documents whose title or one of whose tags has a match, once each. In both cases the
  answer is in the order of the creation times, newest first, documents without one
  last.
\<close>

theorem list_is_newest_first:
  "(q = None \<or> q = Some [] \<longrightarrow>
      (\<exists>ds. list_documents eng (Some st) q = Inr (map document_out ds) \<and> newest_first ds
         \<and> mset ds = mset (DOC_COLLECTION st)))
   \<and> (\<forall>s m. q = Some s \<and> s \<noteq> [] \<and> regex_compile eng s = Some m \<longrightarrow>
      (\<exists>ds. list_documents eng (Some st) q = Inr (map document_out ds) \<and> newest_first ds
         \<and> mset ds = mset (filter (\<lambda>d. m (doc_title d) \<or> (\<exists>t \<in> set (doc_tags d). m t))
                             (DOC_COLLECTION st))))"
proof -
  have "filter_query m = (\<lambda>d. m (doc_title d) \<or> (\<exists>t \<in> set (doc_tags d). m t))" for m
    by (auto simp: filter_query_def list_ex_iff fun_eq_iff)
  then show ?thesis
    by (auto simp: list_documents_def list_cursor_def newest_first_sort_desc mset_sort_desc)
qed

theorem list_is_newest_first_witness:
  "(\<exists>ds. list_documents sample_engine (Some sample_library) None = Inr (map document_out ds)
        \<and> newest_first ds \<and> mset ds = mset (DOC_COLLECTION sample_library))
   \<and> list_documents sample_engine (Some sample_library) None =
        Inr (map document_out [invoice_doc, sample_doc, draft_doc])
   \<and> map doc_created_at [invoice_doc, sample_doc, draft_doc] = [Some 9, Some 7, None]
   \<and> regex_compile sample_engine (lit ''invoice'') =
        Some (regex_search ascii_lower (map atom_of (lit ''invoice'')))
   \<and> (\<exists>ds. list_documents sample_engine (Some sample_library) (Some (lit ''invoice''))
              = Inr (map document_out ds)
        \<and> newest_first ds
        \<and> mset ds = mset (filter (\<lambda>d. regex_search ascii_lower (map atom_of (lit ''invoice'')) (doc_title d)
                      \<or> (\<exists>t \<in> set (doc_tags d). regex_search ascii_lower (map atom_of (lit ''invoice'')) t))
                    (DOC_COLLECTION sample_library)))"
proof -
  have c: "regex_compile sample_engine (lit ''invoice'') =
        Some (regex_search ascii_lower (map atom_of (lit ''invoice'')))"
    by (simp add: regex_compile_def classify_def plain_char_def metachars_def lit_def sample_engine_def)
  have n: "lit ''invoice'' \<noteq> []"
    by (simp add: lit_def)
  have l: "list_documents sample_engine (Some sample_library) None =
        Inr (map document_out [invoice_doc, sample_doc, draft_doc])"
    by (simp add: list_documents_def list_cursor_def sort_sample_library)
  have d: "map doc_created_at [invoice_doc, sample_doc, draft_doc] = [Some 9, Some 7, None]"
    by (simp add: sample_doc_def invoice_doc_def draft_doc_def)
  from list_is_newest_first [of None sample_engine sample_library]
    list_is_newest_first [of "Some (lit ''invoice'')" sample_engine sample_library] c n l d
  show ?thesis by simp
qed

text \<open>
  The query \<^verbatim>\<open>(\<close> is not a regular expression: the database rejects it and the route
  answers no list but the server error 500.
\<close>

theorem list_ill_formed_query_counterexample:
  "list_documents sample_engine (Some sample_library) (Some (lit ''('')) = Inl OperationFailure
   \<and> status_code OperationFailure = 500"
  by (simp add: list_documents_def list_cursor_def regex_compile_def classify_def plain_char_def
      metachars_def lit_def)

subsection \<open>Search\<close>

lemma classify_literal: "literal_query q \<Longrightarrow> classify q = Atoms (map Literal q)"
proof -
  assume a: "literal_query q"
  then have "list_all plain_char q"
    by (simp add: literal_query_def list_all_iff)
  moreover from a have "map atom_of q = map Literal q"
    by (simp add: literal_query_def list_all_iff atom_of_def)
  ultimately show ?thesis by (simp add: classify_def)
qed

lemma match_here_literal: "match_here f (map Literal q) s = prefix (map f q) (map f s)"
proof (induction q arbitrary: s)
  case Nil
  then show ?case by simp
next
  case (Cons c q)
  then show ?case by (cases s) auto
qed

lemma regex_search_literal: "regex_search f (map Literal q) s = contains_ignoring_case f q s"
  unfolding contains_ignoring_case_def
proof (induction s)
  case Nil
  then show ?case by (cases q) auto
next
  case (Cons c s)
  have "match_here f (map Literal q) (c # s) = prefix (map f q) (map f (c # s))"
    by (rule match_here_literal)
  with Cons show ?case by (simp add: sublist_Cons_right)
qed

lemma invoice_selection:
  "filter (\<lambda>d. contains_ignoring_case ascii_lower (lit ''invoice'') (doc_title d)
              \<or> (\<exists>t \<in> set (doc_tags d). contains_ignoring_case ascii_lower (lit ''invoice'') t))
     (DOC_COLLECTION sample_library) = [draft_doc, invoice_doc]"
  by (simp add: sample_library_def sample_doc_def invoice_doc_def draft_doc_def
      contains_ignoring_case_def ascii_lower_def lit_def sublist_code)

text \<open>
  C3 (as amended). For a non-empty query without metacharacters the list route answers
  exactly the documents whose title or one of whose tags contains the query as a
  substring, letters compared without case, each of them once.
\<close>

theorem search_literal_query:
  assumes "literal_query q"
  shows "\<exists>ds. list_documents eng (Some st) (Some q) = Inr (map document_out ds)
           \<and> mset ds = mset (filter
                (\<lambda>d. contains_ignoring_case (case_fold eng) q (doc_title d)
                     \<or> (\<exists>t \<in> set (doc_tags d). contains_ignoring_case (case_fold eng) q t))
                (DOC_COLLECTION st))"
proof -
  let ?sel = "\<lambda>d. contains_ignoring_case (case_fold eng) q (doc_title d)
                 \<or> (\<exists>t \<in> set (doc_tags d). contains_ignoring_case (case_fold eng) q t)"
  let ?ds = "sort_desc (filter ?sel (DOC_COLLECTION st))"
  from assms have "q \<noteq> []"
    and "regex_compile eng q = Some (regex_search (case_fold eng) (map Literal q))"
    by (simp_all add: literal_query_def regex_compile_def classify_literal)
  moreover have "filter_query (regex_search (case_fold eng) (map Literal q)) = ?sel"
    by (auto simp: filter_query_def regex_search_literal list_ex_iff fun_eq_iff)
  ultimately have "list_documents eng (Some st) (Some q) = Inr (map document_out ?ds)"
    by (simp add: list_documents_def list_cursor_def)
  moreover have "mset ?ds = mset (filter ?sel (DOC_COLLECTION st))"
    by (rule mset_sort_desc)
  ultimately show ?thesis by blast
qed

theorem search_literal_query_witness:
  "literal_query (lit ''invoice'')
   \<and> (\<exists>ds. list_documents sample_engine (Some sample_library) (Some (lit ''invoice''))
              = Inr (map document_out ds)
        \<and> mset ds = mset [draft_doc, invoice_doc])
   \<and> doc_title invoice_doc = lit ''Invoice #2'' \<and> doc_tags draft_doc = [lit ''todo'', lit ''INVOICES'']"
proof -
  have h: "literal_query (lit ''invoice'')"
    by (simp add: literal_query_def lit_def plain_char_def metachars_def)
  have f: "case_fold sample_engine = ascii_lower"
    by (simp add: sample_engine_def)
  have t: "doc_title invoice_doc = lit ''Invoice #2''" "doc_tags draft_doc = [lit ''todo'', lit ''INVOICES'']"
    by (simp_all add: invoice_doc_def draft_doc_def)
  from search_literal_query [OF h, of sample_engine sample_library] h t show ?thesis
    unfolding f invoice_selection by simp
qed

text \<open>
  The query is read as a regular expression: the query \<^verbatim>\<open>.\<close> selects the document
  titled \<^verbatim>\<open>Receipt\<close> with the tags \<^verbatim>\<open>a\<close> and \<^verbatim>\<open>b\<close>, none of which contains
  a dot.
\<close>

theorem search_dot_counterexample:
  "list_documents sample_engine (Some sample_library) (Some (lit ''.''))
     = Inr (map document_out [invoice_doc, sample_doc, draft_doc])
   \<and> \<not> contains_ignoring_case ascii_lower (lit ''.'') (doc_title sample_doc)
   \<and> \<not> list_ex (contains_ignoring_case ascii_lower (lit ''.'')) (doc_tags sample_doc)
   \<and> doc_title sample_doc = lit ''Receipt'' \<and> doc_tags sample_doc = [lit ''a'', lit ''b'']"
  by (simp add: list_documents_def list_cursor_def regex_compile_def classify_def plain_char_def
      atom_of_def sample_library_def sample_doc_def invoice_doc_def draft_doc_def lit_def metachars_def
      sort_desc_def filter_query_def contains_ignoring_case_def ascii_lower_def sublist_code)

end
